theory Spec2Isabelle
  imports Complex_Main
begin

section \<open>Session lifecycle of \<open>src/app/page.tsx\<close>\<close>

text \<open>
  The component \<open>WhatsAppSessionGenerator\<close> keeps a list of sessions in React state and
  changes it from event handlers and from \<open>setTimeout\<close> callbacks. The embedding below
  passes the component state explicitly. Everything the handlers read from the
  environment is an input of the model: the clock (\<open>Date.now()\<close>, \<open>new Date()\<close>) is a
  field of the state, and the results of \<open>Math.random()\<close> are supplied with the event
  that runs the code drawing them.
\<close>

subsection \<open>Data\<close>

datatype status = Disconnected | Connecting | Connected

record SessionData =
  sessionId :: string
  status :: status
  qrCode :: "string option"
  pairCode :: "string option"
  phoneNumber :: "string option"
  createdAt :: nat

text \<open>A toast as the handlers build it; \<open>variant\<close> is only ever absent or \<open>destructive\<close>.\<close>

record toast =
  title :: string
  description :: string
  variant :: "string option"

text \<open>
  What a \<open>setTimeout\<close> callback of the component does when it runs: resume
  \<open>createQRSession\<close> or \<open>createPairSession\<close> after its \<open>await\<close> (the latter with the
  \<open>phoneNumber\<close> its closure captured), or the timeout arrow function of lines 75-81 and
  118-124 with the \<open>newSession.sessionId\<close> it captured.
\<close>

datatype task =
    QRContinuation
  | PairContinuation string
  | TimeoutCallback string

text \<open>
  The values one creation draws from \<open>Math.random()\<close>: the three strings
  \<open>Math.random().toString(36).substring(2, 15)\<close> (one in \<open>generateSessionId\<close>, two in
  \<open>generateQRCode\<close>) and the numbers the loop of \<open>generatePairCode\<close> draws, by loop index.

  A number of JavaScript is an IEEE 754 binary64 value. The non-negative finite ones are
  the values \<open>mantissa * 2 ^ exponent\<close> with \<open>mantissa < 2 ^ 53\<close> and
  \<open>- 1074 \<le> exponent\<close>; a \<open>double\<close> below is such a pair, and two pairs with the same
  value stand for the same number.
\<close>

record double =
  mantissa :: nat
  exponent :: int

record entropy =
  id_random :: string
  qr_random1 :: string
  qr_random2 :: string
  code_random :: "nat \<Rightarrow> double"

record app =
  sessions :: "SessionData list"
  phoneNumberInput :: string
  isGenerating :: bool
  toasts :: "toast list"
  timers :: "(nat \<times> task) list"
  clock :: nat

subsection \<open>Generators\<close>

text \<open>Decimal rendering of a number inside a template literal.\<close>

definition digit :: "nat \<Rightarrow> char" where
  "digit d = ''0123456789'' ! (d mod 10)"

function decimal :: "nat \<Rightarrow> string" where
  "decimal n = (if n < 10 then [digit n] else decimal (n div 10) @ [digit (n mod 10)])"
  by pat_completeness auto
termination
  by (relation "measure (\<lambda>n. n)") auto

declare decimal.simps [simp del]

definition generateSessionId :: "nat \<Rightarrow> string \<Rightarrow> string" where
  "generateSessionId timestamp random = ''wa_session_'' @ decimal timestamp @ ''_'' @ random"

text \<open>\<open>btoa\<close>: base64 with the standard alphabet and \<open>=\<close> padding, on the bytes of the string.\<close>

definition b64_alphabet :: string where
  "b64_alphabet = ''ABCDEFGHIJKLMNOPQRSTUVWXYZabcdefghijklmnopqrstuvwxyz0123456789+/''"

definition b64_char :: "nat \<Rightarrow> char" where
  "b64_char k = b64_alphabet ! (k mod 64)"

fun b64_bytes :: "nat list \<Rightarrow> string" where
  "b64_bytes (a # b # c # rest) =
     [b64_char (a div 4), b64_char ((a mod 4) * 16 + b div 16),
      b64_char ((b mod 16) * 4 + c div 64), b64_char (c mod 64)] @ b64_bytes rest"
| "b64_bytes [a, b] =
     [b64_char (a div 4), b64_char ((a mod 4) * 16 + b div 16),
      b64_char ((b mod 16) * 4), CHR ''='']"
| "b64_bytes [a] = [b64_char (a div 4), b64_char ((a mod 4) * 16), CHR ''='', CHR ''='']"
| "b64_bytes [] = []"

definition btoa :: "string \<Rightarrow> string" where
  "btoa s = b64_bytes (map of_char s)"

definition generateQRCode :: "string \<Rightarrow> string \<Rightarrow> nat \<Rightarrow> string" where
  "generateQRCode r1 r2 now = btoa (''2@'' @ r1 @ '','' @ r2 @ '','' @ decimal now)"

definition chars :: string where
  "chars = ''ABCDEFGHIJKLMNOPQRSTUVWXYZ0123456789''"

text \<open>\<open>String.prototype.charAt\<close>: the empty string outside the string.\<close>

definition charAt :: "string \<Rightarrow> int \<Rightarrow> string" where
  "charAt s i = (if 0 \<le> i \<and> i < int (length s) then [s ! nat i] else [])"

text \<open>
  \<open>Math.random()\<close> returns a number from 0 (included) to 1 (excluded). Each of them is
  \<open>m * 2 ^ e\<close> with \<open>m < 2 ^ 53\<close>, \<open>- 1074 \<le> e < 0\<close> and \<open>m < 2 ^ (- e)\<close>.
\<close>

definition unit_double :: "double \<Rightarrow> bool" where
  "unit_double d \<longleftrightarrow>
     mantissa d < 2 ^ 53 \<and> - 1074 \<le> exponent d \<and> exponent d < 0 \<and>
     mantissa d < 2 ^ nat (- exponent d)"

text \<open>The number of low bits an integer has beyond 53 significant bits.\<close>

function excess :: "nat \<Rightarrow> nat" where
  "excess p = (if p < 2 ^ 53 then 0 else Suc (excess (p div 2)))"
  by pat_completeness auto
termination
  by (relation "measure (\<lambda>p. p)") auto

declare excess.simps [simp del]

text \<open>
  The operator \<open>*\<close> of line 47, on a number \<open>d\<close> and an integer \<open>n < 2 ^ 53\<close> (here
  \<open>chars.length\<close>, a number that is that integer exactly): the exact product is
  \<open>(mantissa d * n) * 2 ^ exponent d\<close>, and the result is the binary64 value nearest to
  it, the one with the even mantissa on a tie. The exact product is kept when its integer
  factor has at most 53 bits; otherwise the \<open>k\<close> bits in excess are rounded away. (With
  \<open>d\<close> below 1 and \<open>n = 36\<close> the product is at most 36, far from overflow, and its
  exponent is never below that of \<open>d\<close>, so no bit is lost to underflow.)
\<close>

definition times_double :: "double \<Rightarrow> nat \<Rightarrow> double" where
  "times_double d n =
     (let p = mantissa d * n;
          k = excess p;
          q = p div 2 ^ k;
          r = p mod 2 ^ k;
          q' = (if 2 ^ k < 2 * r \<or> (2 * r = 2 ^ k \<and> odd q) then q + 1 else q)
      in \<lparr>mantissa = q', exponent = exponent d + int k\<rparr>)"

text \<open>\<open>Math.floor\<close> of a non-negative number: the integer part of \<open>mantissa * 2 ^ exponent\<close>.\<close>

definition Math_floor :: "double \<Rightarrow> int" where
  "Math_floor d =
     (if 0 \<le> exponent d then int (mantissa d * 2 ^ nat (exponent d))
      else int (mantissa d div 2 ^ nat (- exponent d)))"

text \<open>
  The loop \<open>for (let i = 0; i < 8; i++) result += chars.charAt(Math.floor(Math.random() * chars.length))\<close>;
  \<open>rnd i\<close> is the number \<open>Math.random()\<close> returns in iteration \<open>i\<close>.
\<close>

function pair_loop :: "(nat \<Rightarrow> double) \<Rightarrow> nat \<Rightarrow> string \<Rightarrow> string" where
  "pair_loop rnd i result =
     (if i < 8
      then pair_loop rnd (i + 1)
             (result @ charAt chars (Math_floor (times_double (rnd i) (length chars))))
      else result)"
  by pat_completeness auto
termination
  by (relation "measure (\<lambda>(rnd, i, result). 8 - i)") auto

declare pair_loop.simps [simp del]

text \<open>
  \<open>result.match(/.{1,4}/g)\<close>: the successive greedy matches of one to four characters that
  are not line terminators (\<open>.\<close> matches neither line feed nor carriage return), or
  \<open>null\<close> when there is none. \<open>match_groups cur s\<close> scans \<open>s\<close> with the match \<open>cur\<close> open.
\<close>

definition line_terminator :: "char \<Rightarrow> bool" where
  "line_terminator c \<longleftrightarrow> c = CHR 0x0A \<or> c = CHR 0x0D"

fun match_groups :: "string \<Rightarrow> string \<Rightarrow> string list" where
  "match_groups cur [] = (if cur = [] then [] else [cur])"
| "match_groups cur (c # cs) =
     (if line_terminator c then (if cur = [] then match_groups [] cs else cur # match_groups [] cs)
      else if length cur = 3 then (cur @ [c]) # match_groups [] cs
      else match_groups (cur @ [c]) cs)"

definition match_1_4 :: "string \<Rightarrow> string list option" where
  "match_1_4 s = (case match_groups [] s of [] \<Rightarrow> None | g # gs \<Rightarrow> Some (g # gs))"

fun join :: "string \<Rightarrow> string list \<Rightarrow> string" where
  "join sep [] = []"
| "join sep [g] = g"
| "join sep (g # h # gs) = g @ sep @ join sep (h # gs)"

text \<open>\<open>return result.match(/.{1,4}/g)?.join("-") || result\<close>: the empty string is falsy.\<close>

definition generatePairCode :: "(nat \<Rightarrow> double) \<Rightarrow> string" where
  "generatePairCode rnd =
     (let result = pair_loop rnd 0 []
      in case match_1_4 result of
           None \<Rightarrow> result
         | Some groups \<Rightarrow> (let joined = join ''-'' groups in if joined = [] then result else joined))"

text \<open>The pattern \<open>[A-Z0-9]{4}-[A-Z0-9]{4}\<close>, anchored at both ends.\<close>

definition upper_or_digit :: "char \<Rightarrow> bool" where
  "upper_or_digit c \<longleftrightarrow>
     (65 \<le> (of_char c :: nat) \<and> (of_char c :: nat) \<le> 90) \<or>
     (48 \<le> (of_char c :: nat) \<and> (of_char c :: nat) \<le> 57)"

definition pair_code_pattern :: "string \<Rightarrow> bool" where
  "pair_code_pattern s \<longleftrightarrow>
     length s = 9 \<and> list_all upper_or_digit (take 4 s) \<and> s ! 4 = CHR ''-'' \<and>
     list_all upper_or_digit (drop 5 s)"

subsection \<open>Timers\<close>

text \<open>
  \<open>setTimeout(f, d)\<close> records the callback with the instant from which it may run. A
  pending callback never runs before that instant; among the pending callbacks the one
  due first runs first, the older one on a tie.
\<close>

definition setTimeout :: "task \<Rightarrow> nat \<Rightarrow> app \<Rightarrow> app" where
  "setTimeout k delay s = s\<lparr>timers := timers s @ [(clock s + delay, k)]\<rparr>"

fun earliest :: "(nat \<times> task) list \<Rightarrow> (nat \<times> task) option" where
  "earliest [] = None"
| "earliest (t # ts) =
     (case earliest ts of
        None \<Rightarrow> Some t
      | Some u \<Rightarrow> if fst u < fst t then Some u else Some t)"

definition add_toast :: "toast \<Rightarrow> app \<Rightarrow> app" where
  "add_toast t s = s\<lparr>toasts := toasts s @ [t]\<rparr>"

subsection \<open>Handlers\<close>

text \<open>\<open>createQRSession\<close> up to its \<open>await\<close> (lines 54-57).\<close>

definition createQRSession :: "app \<Rightarrow> app" where
  "createQRSession s = setTimeout QRContinuation 1500 (s\<lparr>isGenerating := True\<rparr>)"

text \<open>The object literal of lines 59-64.\<close>

definition newQRSession :: "entropy \<Rightarrow> app \<Rightarrow> SessionData" where
  "newQRSession e s =
     \<lparr>sessionId = generateSessionId (clock s) (id_random e),
      status = Connecting,
      qrCode = Some (generateQRCode (qr_random1 e) (qr_random2 e) (clock s)),
      pairCode = None,
      phoneNumber = None,
      createdAt = clock s\<rparr>"

text \<open>The timeout arrow function of lines 75-81 and 118-124.\<close>

definition timeoutCallback :: "string \<Rightarrow> app \<Rightarrow> app" where
  "timeoutCallback sid s =
     s\<lparr>sessions :=
         map (\<lambda>session. if sessionId session = sid then session\<lparr>status := Disconnected\<rparr> else session)
           (sessions s)\<rparr>"

text \<open>\<open>createQRSession\<close> after its \<open>await\<close> (lines 59-81).\<close>

definition createQRSession_resume :: "entropy \<Rightarrow> app \<Rightarrow> app" where
  "createQRSession_resume e s =
     (let newSession = newQRSession e s;
          s1 = s\<lparr>sessions := newSession # sessions s\<rparr>;
          s2 = s1\<lparr>isGenerating := False\<rparr>;
          s3 = add_toast \<lparr>title = ''QR Session Created'',
                 description = ''Scan the QR code with WhatsApp to connect'',
                 variant = None\<rparr> s2
      in setTimeout (TimeoutCallback (sessionId newSession)) 30000 s3)"

text \<open>\<open>createPairSession\<close> up to its \<open>await\<close> (lines 86-98); \<open>!phoneNumber\<close> holds of the empty string only.\<close>

definition createPairSession :: "app \<Rightarrow> app" where
  "createPairSession s =
     (if phoneNumberInput s = []
      then add_toast \<lparr>title = ''Phone Number Required'',
             description = ''Please enter a phone number for pairing'',
             variant = Some ''destructive''\<rparr> s
      else setTimeout (PairContinuation (phoneNumberInput s)) 2000 (s\<lparr>isGenerating := True\<rparr>))"

text \<open>The object literal of lines 100-106; \<open>phone\<close> is the \<open>phoneNumber\<close> of the closure.\<close>

definition newPairSession :: "string \<Rightarrow> entropy \<Rightarrow> app \<Rightarrow> SessionData" where
  "newPairSession phone e s =
     \<lparr>sessionId = generateSessionId (clock s) (id_random e),
      status = Connecting,
      qrCode = None,
      pairCode = Some (generatePairCode (code_random e)),
      phoneNumber = Some phone,
      createdAt = clock s\<rparr>"

text \<open>\<open>createPairSession\<close> after its \<open>await\<close> (lines 100-124).\<close>

definition createPairSession_resume :: "string \<Rightarrow> entropy \<Rightarrow> app \<Rightarrow> app" where
  "createPairSession_resume phone e s =
     (let newSession = newPairSession phone e s;
          s1 = s\<lparr>sessions := newSession # sessions s\<rparr>;
          s2 = s1\<lparr>isGenerating := False\<rparr>;
          s3 = s2\<lparr>phoneNumberInput := []\<rparr>;
          s4 = add_toast \<lparr>title = ''Pair Code Generated'',
                 description = ''Enter the code in WhatsApp Settings > Linked Devices'',
                 variant = None\<rparr> s3
      in setTimeout (TimeoutCallback (sessionId newSession)) 60000 s4)"

definition simulateConnection :: "string \<Rightarrow> app \<Rightarrow> app" where
  "simulateConnection sid s =
     add_toast \<lparr>title = ''Connected!'',
        description = ''WhatsApp session is now active'',
        variant = None\<rparr>
       (s\<lparr>sessions :=
            map (\<lambda>session. if sessionId session = sid then session\<lparr>status := Connected\<rparr> else session)
              (sessions s)\<rparr>)"

definition deleteSession :: "string \<Rightarrow> app \<Rightarrow> app" where
  "deleteSession sid s =
     add_toast \<lparr>title = ''Session Deleted'',
        description = ''Session has been removed'',
        variant = None\<rparr>
       (s\<lparr>sessions := filter (\<lambda>session. sessionId session \<noteq> sid) (sessions s)\<rparr>)"

subsection \<open>Runs\<close>

definition run_task :: "entropy \<Rightarrow> task \<Rightarrow> app \<Rightarrow> app" where
  "run_task e k s =
     (case k of
        QRContinuation \<Rightarrow> createQRSession_resume e s
      | PairContinuation phone \<Rightarrow> createPairSession_resume phone e s
      | TimeoutCallback sid \<Rightarrow> timeoutCallback sid s)"

text \<open>
  \<open>tick e\<close> runs the pending callback that is due first, if its instant has come, and
  removes it from the pending ones (every timer of the component is one-shot).
\<close>

definition tick :: "entropy \<Rightarrow> app \<Rightarrow> app" where
  "tick e s =
     (case earliest (timers s) of
        None \<Rightarrow> s
      | Some t \<Rightarrow>
          if fst t \<le> clock s then run_task e (snd t) (s\<lparr>timers := remove1 t (timers s)\<rparr>) else s)"

text \<open>
  What can happen to the mounted component: a handler is called, the phone number input
  changes (\<open>setPhoneNumber\<close>), time passes, or a pending callback runs. The handlers are
  taken as they are written, callable with any id and at any moment; the page itself
  offers \<open>simulateConnection\<close> only on a session it shows as \<open>connecting\<close> (lines
  313-322) and disables both creation buttons while \<open>isGenerating\<close> holds.
\<close>

datatype event =
    CreateQRSession
  | SetPhoneNumber string
  | CreatePairSession
  | SimulateConnection string
  | DeleteSession string
  | Elapse nat
  | Tick entropy

fun step :: "event \<Rightarrow> app \<Rightarrow> app" where
  "step CreateQRSession s = createQRSession s"
| "step (SetPhoneNumber p) s = s\<lparr>phoneNumberInput := p\<rparr>"
| "step CreatePairSession s = createPairSession s"
| "step (SimulateConnection sid) s = simulateConnection sid s"
| "step (DeleteSession sid) s = deleteSession sid s"
| "step (Elapse d) s = s\<lparr>clock := clock s + d\<rparr>"
| "step (Tick e) s = tick e s"

fun run :: "event list \<Rightarrow> app \<Rightarrow> app" where
  "run [] s = s"
| "run (ev # evs) s = run evs (step ev s)"

text \<open>The component as mounted at instant \<open>t0\<close>: the initial values of the \<open>useState\<close> calls.\<close>

definition app_init :: "nat \<Rightarrow> app" where
  "app_init t0 =
     \<lparr>sessions = [], phoneNumberInput = [], isGenerating = False, toasts = [], timers = [],
      clock = t0\<rparr>"

subsection \<open>Observations\<close>

text \<open>
  A session as its creation built it: every session is created \<open>connecting\<close>, and
  \<open>status\<close> is the only field a handler or callback ever writes afterwards.
\<close>

definition as_created :: "SessionData \<Rightarrow> SessionData" where
  "as_created session = session\<lparr>status := Connecting\<rparr>"

text \<open>The sessions an event creates, and those a whole run creates, oldest first.\<close>

definition created_by :: "event \<Rightarrow> app \<Rightarrow> SessionData list" where
  "created_by ev s =
     (case ev of
        Tick e \<Rightarrow>
          (case earliest (timers s) of
             None \<Rightarrow> []
           | Some t \<Rightarrow>
               if fst t \<le> clock s
               then (case snd t of
                       QRContinuation \<Rightarrow> [newQRSession e s]
                     | PairContinuation phone \<Rightarrow> [newPairSession phone e s]
                     | TimeoutCallback sid \<Rightarrow> [])
               else [])
      | _ \<Rightarrow> [])"

fun created :: "event list \<Rightarrow> app \<Rightarrow> SessionData list" where
  "created [] s = []"
| "created (ev # evs) s = created_by ev s @ created evs (step ev s)"

text \<open>The sessions an event leaves in the list.\<close>

fun kept :: "event \<Rightarrow> SessionData \<Rightarrow> bool" where
  "kept (DeleteSession sid) session = (sessionId session \<noteq> sid)"
| "kept _ session = True"

fun is_delete :: "event \<Rightarrow> bool" where
  "is_delete (DeleteSession sid) = True"
| "is_delete _ = False"

text \<open>The status of the first session with the given id, if there is one.\<close>

definition status_of :: "string \<Rightarrow> app \<Rightarrow> status option" where
  "status_of sid s = map_option status (find (\<lambda>session. sessionId session = sid) (sessions s))"

text \<open>The statuses of a session after each event of a run.\<close>

fun observe :: "string \<Rightarrow> event list \<Rightarrow> app \<Rightarrow> status option list" where
  "observe sid [] s = []"
| "observe sid (ev # evs) s = status_of sid (step ev s) # observe sid evs (step ev s)"

text \<open>
  The component reports a failure to its caller in one way only, a toast of variant
  \<open>destructive\<close> (line 90); no handler returns a value or throws.
\<close>

definition error_toasts :: "app \<Rightarrow> toast list" where
  "error_toasts s = filter (\<lambda>t. variant t = Some ''destructive'') (toasts s)"

text \<open>
  The two artifact variants: a session holds a QR payload and neither pairing code nor
  phone number, or a pairing code with its phone number and no QR payload.
\<close>

definition one_variant :: "SessionData \<Rightarrow> bool" where
  "one_variant session \<longleftrightarrow>
     (qrCode session \<noteq> None \<and> pairCode session = None \<and> phoneNumber session = None) \<or>
     (qrCode session = None \<and> pairCode session \<noteq> None \<and> phoneNumber session \<noteq> None)"

text \<open>
  Sample values of \<open>Math.random()\<close> for concrete runs; the numbers of the loop are
  \<open>i / 8\<close> in iteration \<open>i\<close>.
\<close>

definition sample_entropy :: entropy where
  "sample_entropy =
     \<lparr>id_random = ''k3x9'', qr_random1 = ''a1b2'', qr_random2 = ''c3d4'',
      code_random = (\<lambda>i. \<lparr>mantissa = i, exponent = - 3\<rparr>)\<rparr>"

text \<open>
  Numbers at which the rounding of the product matters: \<open>1 - 2 ^ - 53\<close>, the largest
  number below 1, in the even iterations, and \<open>0.6388888888888888\<close>, the number next
  below \<open>23 / 36\<close>, whose product with 36 rounds up to 23, in the odd ones.
\<close>

definition rounding_draws :: "nat \<Rightarrow> double" where
  "rounding_draws i =
     (if even i then \<lparr>mantissa = 9007199254740991, exponent = - 53\<rparr>
      else \<lparr>mantissa = 1438649880965575, exponent = - 51\<rparr>)"

section \<open>The pairing-code generator\<close>

lemma chars_upper_or_digit: "list_all upper_or_digit chars"
  by (simp add: chars_def upper_or_digit_def)

lemma length_chars: "length chars = 36"
  by (simp add: chars_def)

lemma excess_le: "p < 2 ^ (53 + j) \<Longrightarrow> excess p \<le> j"
proof (induction j arbitrary: p)
  case 0
  then show ?case by (subst excess.simps) simp
next
  case (Suc j)
  have "(2::nat) ^ (53 + Suc j) = 2 * 2 ^ (53 + j)"
    by (simp only: add_Suc_right power_Suc)
  with Suc.prems have "p < 2 * 2 ^ (53 + j)" by (simp only:)
  then have "p div 2 < 2 ^ (53 + j)" by (simp add: less_mult_imp_div_less mult.commute)
  then have "excess (p div 2) \<le> j" by (rule Suc.IH)
  then show ?case by (subst excess.simps) simp
qed

lemma excess_pos: "0 < excess p \<Longrightarrow> 2 ^ 53 \<le> p"
  by (subst (asm) excess.simps) (simp split: if_splits)

text \<open>Rounding to nearest moves the integer factor by at most half a unit of the last place.\<close>

lemma rounded_le:
  fixes p k :: nat
  defines "q \<equiv> p div 2 ^ k" and "r \<equiv> p mod 2 ^ k"
  shows "2 * ((if 2 ^ k < 2 * r \<or> (2 * r = 2 ^ k \<and> odd q) then q + 1 else q) * 2 ^ k)
         \<le> 2 * p + 2 ^ k"
proof -
  have p: "p = q * 2 ^ k + r"
    unfolding q_def r_def by (simp add: div_mult_mod_eq)
  show ?thesis
  proof (cases "2 ^ k < 2 * r \<or> (2 * r = 2 ^ k \<and> odd q)")
    case True
    then have "2 ^ k \<le> 2 * r" by auto
    then have "2 * ((q + 1) * 2 ^ k) \<le> 2 * (q * 2 ^ k + r) + 2 ^ k"
      by (simp add: algebra_simps)
    with True p show ?thesis by simp
  next
    case False
    have "2 * (q * 2 ^ k) \<le> 2 * (q * 2 ^ k + r) + 2 ^ k" by simp
    with False p show ?thesis by simp
  qed
qed

text \<open>
  The index \<open>Math.floor(Math.random() * chars.length)\<close> lies in the string: the product,
  once rounded, is still below 36. For the largest number below 1 the exact product is
  \<open>36 - 36 * 2 ^ - 53\<close>, which rounds to \<open>36 - 2 ^ - 47\<close> and not to 36.
\<close>

lemma index_less:
  assumes "unit_double d"
  shows "Math_floor (times_double d 36) < 36"
proof -
  define m where "m = mantissa d"
  define N where "N = nat (- exponent d)"
  define k where "k = excess (m * 36)"
  define q' where "q' = mantissa (times_double d 36)"
  from assms have m53: "m < 2 ^ 53" and mN: "m < 2 ^ N" and N: "0 < N"
    and e: "exponent d = - int N"
    by (simp_all add: unit_double_def m_def N_def)
  have "m * 36 < 2 ^ 53 * 2 ^ 6" using m53 by simp
  then have "m * 36 < 2 ^ (53 + 6)" by (simp only: power_add)
  then have k6: "k \<le> 6" unfolding k_def by (rule excess_le)
  have kN: "k < N"
  proof (cases "k = 0")
    case True
    with N show ?thesis by simp
  next
    case False
    then have "0 < excess (m * 36)" unfolding k_def by simp
    then have "2 ^ 53 \<le> m * 36" by (rule excess_pos)
    have "47 < N"
    proof (rule ccontr)
      assume "\<not> 47 < N"
      then have "N \<le> 47" by simp
      then have "(2::nat) ^ N \<le> 2 ^ 47" by (rule power_increasing) simp
      with mN have "m * 36 < 2 ^ 47 * 36" by simp
      also have "\<dots> < (2::nat) ^ 53" by simp
      finally show False using \<open>2 ^ 53 \<le> m * 36\<close> by simp
    qed
    with k6 show ?thesis by simp
  qed
  have pow: "(2::nat) ^ k \<le> 2 ^ 6" using k6 by (rule power_increasing) simp
  have "2 * (q' * 2 ^ k) \<le> 2 * (m * 36) + 2 ^ k"
    unfolding q'_def times_double_def Let_def m_def [symmetric] k_def [symmetric]
    using rounded_le [of k "m * 36"] by simp
  also have "\<dots> \<le> 2 * (m * 36) + 64" using pow by simp
  also have "\<dots> < 2 * (36 * 2 ^ N)" using mN by simp
  finally have "q' * 2 ^ k < 36 * 2 ^ N" by simp
  also have "(2::nat) ^ N = 2 ^ (N - k) * 2 ^ k"
    using kN by (simp add: power_add [symmetric])
  finally have "q' < 36 * 2 ^ (N - k)" by simp
  then have "q' div 2 ^ (N - k) < 36"
    by (simp add: less_mult_imp_div_less)
  moreover have ex: "exponent (times_double d 36) = - int (N - k)"
    using kN
    by (simp add: times_double_def Let_def e m_def [symmetric] k_def [symmetric])
  moreover have "\<not> 0 \<le> exponent (times_double d 36)"
    unfolding ex using kN by simp
  moreover have "nat (- exponent (times_double d 36)) = N - k"
    unfolding ex by simp
  ultimately show ?thesis
    unfolding Math_floor_def q'_def by (simp only: if_False of_nat_less_iff of_nat_numeral)
qed

lemma index_nonneg: "0 \<le> Math_floor d"
  by (simp add: Math_floor_def)

lemma charAt_random:
  assumes "unit_double d"
  shows "charAt chars (Math_floor (times_double d (length chars))) =
           [chars ! nat (Math_floor (times_double d 36))] \<and>
         upper_or_digit (chars ! nat (Math_floor (times_double d 36)))"
proof -
  let ?k = "Math_floor (times_double d 36)"
  have lo: "0 \<le> ?k" by (rule index_nonneg)
  have hi: "?k < 36" using assms by (rule index_less)
  from lo hi have "nat ?k < length chars" unfolding length_chars by linarith
  then have "upper_or_digit (chars ! nat ?k)"
    using chars_upper_or_digit by (simp add: list_all_length)
  then show ?thesis using lo hi by (simp add: charAt_def length_chars)
qed

lemma pair_loop_unfold:
  "i \<le> 8 \<Longrightarrow>
   pair_loop rnd i r =
   r @ concat (map (\<lambda>j. charAt chars (Math_floor (times_double (rnd j) (length chars))))
         [i..<8])"
proof (induction rnd i r rule: pair_loop.induct)
  case (1 rnd i result)
  show ?case
  proof (cases "i < 8")
    case True
    then have "[i..<8] = i # [i + 1..<8]" by (simp add: upt_conv_Cons)
    with True 1 show ?thesis by (subst pair_loop.simps) simp
  next
    case False
    with 1 show ?thesis by (subst pair_loop.simps) simp
  qed
qed

lemma upper_or_digit_not_terminator: "upper_or_digit c \<Longrightarrow> \<not> line_terminator c"
  by (auto simp: upper_or_digit_def line_terminator_def)

lemma match_groups_eight:
  assumes "list_all (\<lambda>c. \<not> line_terminator c) [a, b, c, d, e, f, g, h]"
  shows "match_groups [] [a, b, c, d, e, f, g, h] = [[a, b, c, d], [e, f, g, h]]"
  using assms by simp

lemma upt_eight: "[0..<8] = [0, 1, 2, 3, 4, 5, 6, 7::nat]"
  by (simp add: upt_conv_Cons)

lemma excess_small: "p < 2 ^ 53 \<Longrightarrow> excess p = 0"
  by (subst excess.simps) simp

text \<open>A product whose integer factor fits in 53 bits is exact.\<close>

lemma times_double_exact:
  "mantissa d * n < 2 ^ 53 \<Longrightarrow>
   times_double d n = \<lparr>mantissa = mantissa d * n, exponent = exponent d\<rparr>"
  by (simp add: times_double_def excess_small)

lemma generatePairCode_sample:
  "generatePairCode (\<lambda>i. \<lparr>mantissa = i, exponent = - 3\<rparr>) = ''AEJN-SW15''"
  by (simp add: generatePairCode_def pair_loop.simps length_chars times_double_exact
      Math_floor_def)
    (simp add: charAt_def chars_def match_1_4_def line_terminator_def)

text \<open>
  The two samples where rounding decides: \<open>(1 - 2 ^ - 53) * 36\<close> rounds to
  \<open>36 - 2 ^ - 47\<close>, index 35, and \<open>0.6388888888888888 * 36\<close> rounds up to 23, where the
  exact product has integer part 22.
\<close>

lemma index_largest:
  "Math_floor (times_double \<lparr>mantissa = 9007199254740991, exponent = - 53\<rparr> 36) = 35"
  by (simp add: times_double_def Let_def Math_floor_def) (simp add: excess.simps)

lemma index_rounded_up:
  "Math_floor (times_double \<lparr>mantissa = 1438649880965575, exponent = - 51\<rparr> 36) = 23"
  by (simp add: times_double_def Let_def Math_floor_def) (simp add: excess.simps)

lemma generatePairCode_rounding: "generatePairCode rounding_draws = ''9X9X-9X9X''"
  by (simp add: generatePairCode_def pair_loop.simps length_chars rounding_draws_def
      index_largest index_rounded_up)
    (simp add: charAt_def chars_def match_1_4_def line_terminator_def)

text \<open>
  C6. Whenever the eight numbers the loop draws from \<open>Math.random()\<close> lie in the interval
  from 0 (included) to 1 (excluded), as \<open>Math.random()\<close> promises, the string
  \<open>generatePairCode\<close> returns matches \<open>[A-Z0-9]{4}-[A-Z0-9]{4}\<close>: nine characters, a
  hyphen in the middle, four characters of \<open>A-Z0-9\<close> on each side. The numbers are
  binary64 values and the product with \<open>chars.length\<close> is the rounded one.
\<close>

theorem generatePairCode_pattern:
  assumes "\<forall>i<8. unit_double (rnd i)"
  shows "pair_code_pattern (generatePairCode rnd)"
proof -
  define pick where "pick j = chars ! nat (Math_floor (times_double (rnd j) 36))" for j
  have pick: "charAt chars (Math_floor (times_double (rnd j) (length chars))) = [pick j]"
    if "j < 8" for j
    unfolding pick_def using charAt_random [of "rnd j"] assms that by blast
  have ok: "upper_or_digit (pick j)" if "j < 8" for j
    unfolding pick_def using charAt_random [of "rnd j"] assms that by blast
  have "pair_loop rnd 0 [] =
      concat (map (\<lambda>j. charAt chars (Math_floor (times_double (rnd j) (length chars)))) [0..<8])"
    by (simp add: pair_loop_unfold)
  also have "\<dots> = concat (map (\<lambda>j. [pick j]) [0..<8])"
    by (rule arg_cong [where f = concat], rule map_cong) (simp_all add: pick)
  also have "\<dots> = [pick 0, pick 1, pick 2, pick 3, pick 4, pick 5, pick 6, pick 7]"
    unfolding upt_eight by simp
  finally have result:
    "pair_loop rnd 0 [] = [pick 0, pick 1, pick 2, pick 3, pick 4, pick 5, pick 6, pick 7]" .
  have groups: "match_groups [] [pick 0, pick 1, pick 2, pick 3, pick 4, pick 5, pick 6, pick 7]
      = [[pick 0, pick 1, pick 2, pick 3], [pick 4, pick 5, pick 6, pick 7]]"
    by (rule match_groups_eight) (simp add: ok upper_or_digit_not_terminator)
  have m: "match_1_4 [pick 0, pick 1, pick 2, pick 3, pick 4, pick 5, pick 6, pick 7]
      = Some [[pick 0, pick 1, pick 2, pick 3], [pick 4, pick 5, pick 6, pick 7]]"
    by (simp only: match_1_4_def groups list.case)
  have "generatePairCode rnd =
      [pick 0, pick 1, pick 2, pick 3] @ ''-'' @ [pick 4, pick 5, pick 6, pick 7]"
    by (simp only: generatePairCode_def result Let_def m option.case join.simps) simp
  then show ?thesis by (simp add: pair_code_pattern_def ok)
qed

theorem generatePairCode_pattern_witness:
  "list_all unit_double (map rounding_draws [0..<8]) \<and>
   pair_code_pattern (generatePairCode rounding_draws) \<and>
   generatePairCode rounding_draws = ''9X9X-9X9X'' \<and>
   list_all unit_double (map (code_random sample_entropy) [0..<8]) \<and>
   pair_code_pattern (generatePairCode (code_random sample_entropy)) \<and>
   generatePairCode (code_random sample_entropy) = ''AEJN-SW15''"
proof -
  have h: "\<forall>i<8. unit_double (rounding_draws i)"
    by (simp add: rounding_draws_def unit_double_def)
  have h': "\<forall>i<8. unit_double (code_random sample_entropy i)"
    by (simp add: sample_entropy_def unit_double_def)
  have v: "generatePairCode (code_random sample_entropy) = ''AEJN-SW15''"
    by (simp add: sample_entropy_def generatePairCode_sample)
  from h h' v generatePairCode_rounding
    generatePairCode_pattern [OF h] generatePairCode_pattern [OF h']
  show ?thesis by (simp add: list_all_iff)
qed

section \<open>What each handler does to the session list\<close>

lemma as_created_new [simp]:
  "as_created (newQRSession e s) = newQRSession e s"
  "as_created (newPairSession p e s) = newPairSession p e s"
  by (simp_all add: as_created_def newQRSession_def newPairSession_def)

lemma as_created_status [simp]: "as_created (x\<lparr>status := st\<rparr>) = as_created x"
  by (simp add: as_created_def)

lemma map_as_created_set_status:
  "map as_created (map (\<lambda>x. if P x then x\<lparr>status := st\<rparr> else x) xs) = map as_created xs"
  by (induction xs) simp_all

lemma new_session_clock [simp]:
  "newQRSession e (s\<lparr>timers := ts\<rparr>) = newQRSession e s"
  "newPairSession p e (s\<lparr>timers := ts\<rparr>) = newPairSession p e s"
  by (simp_all add: newQRSession_def newPairSession_def)

lemma sessions_timeoutCallback:
  "map as_created (sessions (timeoutCallback sid s)) = map as_created (sessions s)"
  by (simp add: timeoutCallback_def map_as_created_set_status)

lemma sessions_simulateConnection:
  "map as_created (sessions (simulateConnection sid s)) = map as_created (sessions s)"
  by (simp add: simulateConnection_def add_toast_def map_as_created_set_status)

lemma sessions_deleteSession:
  "sessions (deleteSession sid s) = filter (\<lambda>x. sessionId x \<noteq> sid) (sessions s)"
  by (simp add: deleteSession_def add_toast_def)

lemma sessions_createQRSession_resume:
  "sessions (createQRSession_resume e s) = newQRSession e s # sessions s"
  by (simp add: createQRSession_resume_def Let_def setTimeout_def add_toast_def)

lemma sessions_createPairSession_resume:
  "sessions (createPairSession_resume p e s) = newPairSession p e s # sessions s"
  by (simp add: createPairSession_resume_def Let_def setTimeout_def add_toast_def)

lemma sessions_createQRSession: "sessions (createQRSession s) = sessions s"
  by (simp add: createQRSession_def setTimeout_def)

lemma sessions_createPairSession: "sessions (createPairSession s) = sessions s"
  by (simp add: createPairSession_def setTimeout_def add_toast_def)

lemma sessions_tick:
  "map as_created (sessions (tick e s)) = created_by (Tick e) s @ map as_created (sessions s)"
proof (cases "earliest (timers s)")
  case None
  then show ?thesis by (simp add: tick_def created_by_def)
next
  case (Some t)
  show ?thesis
  proof (cases "fst t \<le> clock s")
    case False
    with Some show ?thesis by (simp add: tick_def created_by_def)
  next
    case True
    with Some show ?thesis
      by (cases "snd t")
        (simp_all add: tick_def created_by_def run_task_def sessions_createQRSession_resume
          sessions_createPairSession_resume sessions_timeoutCallback)
  qed
qed

lemma kept_delete: "kept (DeleteSession sid) = (\<lambda>x. sessionId x \<noteq> sid)"
  by (rule ext) simp

lemma kept_other: "\<not> is_delete ev \<Longrightarrow> filter (kept ev) xs = xs"
  by (cases ev) simp_all

lemma sessions_step:
  "map as_created (sessions (step ev s)) =
   created_by ev s @ map as_created (filter (kept ev) (sessions s))"
proof (cases ev)
  case (Tick e)
  then show ?thesis by (simp add: sessions_tick)
qed (simp_all add: created_by_def sessions_createQRSession sessions_createPairSession
      sessions_simulateConnection sessions_deleteSession kept_delete)

lemma ids_step:
  "sessionId ` set (sessions (step ev s)) \<subseteq>
   sessionId ` set (created_by ev s) \<union> sessionId ` set (sessions s)"
proof -
  have "sessionId ` set (sessions (step ev s)) = set (map sessionId (map as_created (sessions (step ev s))))"
    by (simp add: as_created_def image_image)
  also have "\<dots> = set (map sessionId (created_by ev s @ map as_created (filter (kept ev) (sessions s))))"
    by (simp only: sessions_step)
  also have "\<dots> \<subseteq> sessionId ` set (created_by ev s) \<union> sessionId ` set (sessions s)"
    by (auto simp: as_created_def)
  finally show ?thesis .
qed

lemma subset_chain: "A \<subseteq> B \<union> C \<Longrightarrow> C \<subseteq> D \<union> E \<Longrightarrow> A \<subseteq> (D \<union> B) \<union> E"
  by blast

lemma ids_run:
  "sessionId ` set (sessions (run evs s)) \<subseteq>
   sessionId ` set (created evs s) \<union> sessionId ` set (sessions s)"
proof (induction evs arbitrary: s)
  case Nil
  show ?case by simp
next
  case (Cons ev evs)
  have "sessionId ` set (sessions (run evs (step ev s))) \<subseteq>
      sessionId ` set (created evs (step ev s)) \<union> sessionId ` set (sessions (step ev s))"
    by (rule Cons.IH)
  then have "sessionId ` set (sessions (run evs (step ev s))) \<subseteq>
      (sessionId ` set (created_by ev s) \<union> sessionId ` set (created evs (step ev s))) \<union>
      sessionId ` set (sessions s)"
    using ids_step [of ev s] by (rule subset_chain)
  then show ?case by (simp only: run.simps created.simps set_append image_Un)
qed

lemma map_other_ids:
  "sid \<notin> sessionId ` set xs \<Longrightarrow>
   map (\<lambda>session. if sessionId session = sid then f session else session) xs = xs"
  by (induction xs) auto

lemma timeoutCallback_absent:
  "sid \<notin> sessionId ` set (sessions s) \<Longrightarrow> timeoutCallback sid s = s"
  by (simp add: timeoutCallback_def map_other_ids)

section \<open>Concrete runs\<close>

text \<open>The definitions a closed run unfolds to.\<close>

lemmas handler_defs =
  app_init_def createQRSession_def createQRSession_resume_def newQRSession_def
  createPairSession_def createPairSession_resume_def newPairSession_def
  simulateConnection_def deleteSession_def timeoutCallback_def
  setTimeout_def add_toast_def tick_def run_task_def Let_def

lemmas generator_defs =
  generateSessionId_def generateQRCode_def btoa_def b64_char_def b64_alphabet_def
  decimal.simps digit_def sample_entropy_def generatePairCode_sample

section \<open>The timeout callback\<close>

text \<open>
  C1. The claim: when the timeout of a session fires, the session becomes
  \<open>disconnected\<close> only if it is still \<open>connecting\<close>; a session confirmed before
  the timer fires stays \<open>connected\<close>. The callback of lines 75-81 (and 118-124) sets
  \<open>status: "disconnected"\<close> on the session with the captured id without reading its
  status. In the run below a QR session is created at instant 1500, confirmed at once with
  \<open>simulateConnection\<close>, which makes it \<open>connected\<close>, and thirty seconds later its
  timeout callback runs: the session ends \<open>disconnected\<close>.
\<close>

theorem timeout_disconnects_confirmed_session:
  "map status (sessions (run [CreateQRSession, Elapse 1500, Tick sample_entropy,
       SimulateConnection ''wa_session_1500_k3x9''] (app_init 0))) = [Connected] \<and>
   map status (sessions (run [CreateQRSession, Elapse 1500, Tick sample_entropy,
       SimulateConnection ''wa_session_1500_k3x9'', Elapse 30000, Tick sample_entropy]
       (app_init 0))) = [Disconnected]"
  by (simp add: handler_defs generator_defs)

text \<open>
  C2. The claim: the statuses a session is seen in form a subsequence of
  \<open>connecting, connected\<close> or of \<open>connecting, disconnected\<close>; \<open>connected\<close> is never
  followed by \<open>disconnected\<close>. In the run below a pairing session is created, confirmed
  and then reached by its sixty-second timeout; observed after each event it is absent
  three times, then \<open>connecting\<close>, \<open>connected\<close>, \<open>connected\<close> and at last
  \<open>disconnected\<close>.
\<close>

theorem observed_connected_then_disconnected:
  "observe ''wa_session_2000_k3x9''
     [SetPhoneNumber ''+15551234567'', CreatePairSession, Elapse 2000, Tick sample_entropy,
      SimulateConnection ''wa_session_2000_k3x9'', Elapse 60000, Tick sample_entropy]
     (app_init 0) =
   [None, None, None, Some Connecting, Some Connected, Some Connected, Some Disconnected]"
  by (simp add: handler_defs generator_defs status_of_def)

text \<open>
  C9. When the callback that runs is the timeout of the session with id \<open>sid\<close>, the
  list keeps its length and every session whose id is not \<open>sid\<close> is the same record, at
  the same position, as before; the sessions with id \<open>sid\<close> change in their status only,
  and nothing else of the component state changes but the fired timer, which is no longer
  pending.
\<close>

theorem timeout_affects_only_its_session:
  assumes "earliest (timers s) = Some (due, TimeoutCallback sid)" and "due \<le> clock s"
  shows "length (sessions (tick e s)) = length (sessions s) \<and>
         (\<forall>i<length (sessions s).
            sessionId (sessions s ! i) \<noteq> sid \<longrightarrow> sessions (tick e s) ! i = sessions s ! i) \<and>
         map as_created (sessions (tick e s)) = map as_created (sessions s) \<and>
         toasts (tick e s) = toasts s \<and> phoneNumberInput (tick e s) = phoneNumberInput s \<and>
         isGenerating (tick e s) = isGenerating s \<and> clock (tick e s) = clock s \<and>
         timers (tick e s) = remove1 (due, TimeoutCallback sid) (timers s)"
proof -
  have t: "tick e s = timeoutCallback sid (s\<lparr>timers := remove1 (due, TimeoutCallback sid) (timers s)\<rparr>)"
    using assms by (simp add: tick_def run_task_def)
  have "map as_created (sessions (tick e s)) = map as_created (sessions s)"
    unfolding t by (simp add: sessions_timeoutCallback)
  then show ?thesis
    unfolding t by (simp add: timeoutCallback_def)
qed

theorem timeout_affects_only_its_session_witness:
  "sessions (tick sample_entropy
      (run [CreateQRSession, Elapse 1500, Tick sample_entropy, SetPhoneNumber ''+15551234567'',
            CreatePairSession, Elapse 2000, Tick sample_entropy, Elapse 28000] (app_init 0))) ! 0 =
   sessions (run [CreateQRSession, Elapse 1500, Tick sample_entropy, SetPhoneNumber ''+15551234567'',
            CreatePairSession, Elapse 2000, Tick sample_entropy, Elapse 28000] (app_init 0)) ! 0 \<and>
   map sessionId (sessions (run [CreateQRSession, Elapse 1500, Tick sample_entropy,
            SetPhoneNumber ''+15551234567'', CreatePairSession, Elapse 2000, Tick sample_entropy,
            Elapse 28000] (app_init 0))) = [''wa_session_3500_k3x9'', ''wa_session_1500_k3x9''] \<and>
   map status (sessions (tick sample_entropy
      (run [CreateQRSession, Elapse 1500, Tick sample_entropy, SetPhoneNumber ''+15551234567'',
            CreatePairSession, Elapse 2000, Tick sample_entropy, Elapse 28000] (app_init 0)))) =
     [Connecting, Disconnected]"
proof -
  let ?s = "run [CreateQRSession, Elapse 1500, Tick sample_entropy, SetPhoneNumber ''+15551234567'',
            CreatePairSession, Elapse 2000, Tick sample_entropy, Elapse 28000] (app_init 0)"
  have h1: "earliest (timers ?s) = Some (31500, TimeoutCallback ''wa_session_1500_k3x9'')"
    by (simp add: handler_defs generator_defs)
  have h2: "31500 \<le> clock ?s"
    by (simp add: handler_defs generator_defs)
  have ids: "map sessionId (sessions ?s) = [''wa_session_3500_k3x9'', ''wa_session_1500_k3x9'']"
    by (simp add: handler_defs generator_defs)
  have st: "map status (sessions (tick sample_entropy ?s)) = [Connecting, Disconnected]"
    by (simp add: handler_defs generator_defs)
  from ids have len: "0 < length (sessions ?s)" and other: "sessionId (sessions ?s ! 0) \<noteq> ''wa_session_1500_k3x9''"
    by (simp_all add: handler_defs generator_defs)
  from timeout_affects_only_its_session [OF h1 h2, of sample_entropy] len other
  have "sessions (tick sample_entropy ?s) ! 0 = sessions ?s ! 0" by blast
  with ids st show ?thesis by simp
qed

section \<open>Deleting a session\<close>

text \<open>
  C3, as the claim states it, fails: \<open>deleteSession\<close> keeps no handle of the timer and
  calls no \<open>clearTimeout\<close>. After a QR session created at instant 1500 is deleted, its
  timeout callback is still pending for instant 31500, and it runs then.
\<close>

theorem delete_leaves_timer_pending:
  "timers (run [CreateQRSession, Elapse 1500, Tick sample_entropy,
       DeleteSession ''wa_session_1500_k3x9''] (app_init 0)) =
     [(31500, TimeoutCallback ''wa_session_1500_k3x9'')] \<and>
   timers (run [CreateQRSession, Elapse 1500, Tick sample_entropy,
       DeleteSession ''wa_session_1500_k3x9'', Elapse 30000, Tick sample_entropy]
       (app_init 0)) = []"
  by (simp add: handler_defs generator_defs)

text \<open>
  C3, amended. \<open>deleteSession\<close> leaves the pending timers as they are, and the timeout
  callback of the deleted id still runs; but it changes nothing: whatever happens between
  the deletion and the callback, as long as no session created in between receives the
  deleted id, the state after the callback is the state before it.
\<close>

theorem stale_timer_after_delete:
  assumes "sid \<notin> sessionId ` set (created evs (deleteSession sid s))"
  shows "timers (deleteSession sid s) = timers s \<and>
         timeoutCallback sid (run evs (deleteSession sid s)) = run evs (deleteSession sid s)"
proof -
  have "sid \<notin> sessionId ` set (sessions (deleteSession sid s))"
    by (auto simp: sessions_deleteSession)
  with assms ids_run [of evs "deleteSession sid s"]
  have "sid \<notin> sessionId ` set (sessions (run evs (deleteSession sid s)))" by blast
  then have "timeoutCallback sid (run evs (deleteSession sid s)) = run evs (deleteSession sid s)"
    by (rule timeoutCallback_absent)
  moreover have "timers (deleteSession sid s) = timers s"
    by (simp add: deleteSession_def add_toast_def)
  ultimately show ?thesis by simp
qed

theorem stale_timer_after_delete_witness:
  "timeoutCallback ''wa_session_1500_k3x9''
     (run [CreateQRSession, Elapse 1500, Tick sample_entropy, Elapse 27000]
        (deleteSession ''wa_session_1500_k3x9''
           (run [CreateQRSession, Elapse 1500, Tick sample_entropy] (app_init 0)))) =
   run [CreateQRSession, Elapse 1500, Tick sample_entropy, Elapse 27000]
        (deleteSession ''wa_session_1500_k3x9''
           (run [CreateQRSession, Elapse 1500, Tick sample_entropy] (app_init 0))) \<and>
   map sessionId (sessions
     (run [CreateQRSession, Elapse 1500, Tick sample_entropy, Elapse 27000]
        (deleteSession ''wa_session_1500_k3x9''
           (run [CreateQRSession, Elapse 1500, Tick sample_entropy] (app_init 0))))) =
   [''wa_session_3000_k3x9'']"
proof -
  let ?s = "run [CreateQRSession, Elapse 1500, Tick sample_entropy] (app_init 0)"
  let ?evs = "[CreateQRSession, Elapse 1500, Tick sample_entropy, Elapse 27000]"
  have h: "''wa_session_1500_k3x9'' \<notin>
      sessionId ` set (created ?evs (deleteSession ''wa_session_1500_k3x9'' ?s))"
    by (simp add: handler_defs generator_defs created_by_def)
  have ids: "map sessionId (sessions (run ?evs (deleteSession ''wa_session_1500_k3x9'' ?s))) =
      [''wa_session_3000_k3x9'']"
    by (simp add: handler_defs generator_defs)
  from stale_timer_after_delete [OF h] ids show ?thesis by blast
qed

section \<open>Ids that are not in the list\<close>

text \<open>
  C4, as the claim states it, fails: on an id that no session has, \<open>simulateConnection\<close>
  and \<open>deleteSession\<close>, and a second \<open>deleteSession\<close>, report no failure. Each adds its
  usual success toast (\<open>Connected!\<close>, \<open>Session Deleted\<close>) and no toast of variant
  \<open>destructive\<close>.
\<close>

theorem absent_id_reports_success:
  "error_toasts (simulateConnection ''ghost'' (app_init 0)) = [] \<and>
   error_toasts (deleteSession ''ghost'' (app_init 0)) = [] \<and>
   map title (toasts (run [SimulateConnection ''ghost'', DeleteSession ''ghost'',
      DeleteSession ''ghost''] (app_init 0))) =
     [''Connected!'', ''Session Deleted'', ''Session Deleted''] \<and>
   error_toasts (run [SimulateConnection ''ghost'', DeleteSession ''ghost'',
      DeleteSession ''ghost''] (app_init 0)) = []"
  by (simp add: handler_defs error_toasts_def)

text \<open>
  C4, amended. On an id that no session has, \<open>simulateConnection\<close> and
  \<open>deleteSession\<close> leave the state as it is except for the success toast they add, and
  report no failure; a second \<open>deleteSession\<close> of an id, in any state \<open>s'\<close>, leaves the
  list as the first one left it and reports no failure either.
\<close>

theorem absent_id_unchanged_no_error:
  assumes "sid \<notin> sessionId ` set (sessions s)"
  shows "simulateConnection sid s =
           add_toast \<lparr>title = ''Connected!'', description = ''WhatsApp session is now active'',
             variant = None\<rparr> s \<and>
         deleteSession sid s =
           add_toast \<lparr>title = ''Session Deleted'', description = ''Session has been removed'',
             variant = None\<rparr> s \<and>
         error_toasts (simulateConnection sid s) = error_toasts s \<and>
         error_toasts (deleteSession sid s) = error_toasts s \<and>
         sessions (deleteSession sid (deleteSession sid s')) = sessions (deleteSession sid s') \<and>
         error_toasts (deleteSession sid (deleteSession sid s')) = error_toasts s'"
proof -
  have "filter (\<lambda>session. sessionId session \<noteq> sid) (sessions s) = sessions s"
    using assms by (auto intro: filter_True)
  then have "deleteSession sid s =
           add_toast \<lparr>title = ''Session Deleted'', description = ''Session has been removed'',
             variant = None\<rparr> s"
    by (simp add: deleteSession_def)
  moreover have "simulateConnection sid s =
           add_toast \<lparr>title = ''Connected!'', description = ''WhatsApp session is now active'',
             variant = None\<rparr> s"
    using assms by (simp add: simulateConnection_def map_other_ids)
  ultimately show ?thesis
    by (simp add: error_toasts_def add_toast_def) (simp add: deleteSession_def add_toast_def)
qed

theorem absent_id_unchanged_no_error_witness:
  "simulateConnection ''ghost'' (run [CreateQRSession, Elapse 1500, Tick sample_entropy] (app_init 0)) =
     add_toast \<lparr>title = ''Connected!'', description = ''WhatsApp session is now active'',
       variant = None\<rparr> (run [CreateQRSession, Elapse 1500, Tick sample_entropy] (app_init 0)) \<and>
   map sessionId (sessions (deleteSession ''ghost''
     (run [CreateQRSession, Elapse 1500, Tick sample_entropy] (app_init 0)))) =
     [''wa_session_1500_k3x9'']"
proof -
  let ?s = "run [CreateQRSession, Elapse 1500, Tick sample_entropy] (app_init 0)"
  have h: "''ghost'' \<notin> sessionId ` set (sessions ?s)"
    by (simp add: handler_defs generator_defs)
  have "map sessionId (sessions ?s) = [''wa_session_1500_k3x9'']"
    by (simp add: handler_defs generator_defs)
  with absent_id_unchanged_no_error [OF h, of ?s] show ?thesis by (simp add: add_toast_def)
qed

section \<open>Creating a pairing session\<close>

text \<open>
  C5. With an empty phone number \<open>createPairSession\<close> reports the failure (the
  destructive toast \<open>Phone Number Required\<close>) and produces no session: the list is
  unchanged and no continuation is scheduled. With a non-empty phone number it reports no
  failure and schedules its continuation with that phone number; the continuation,
  whenever it runs, puts a new session in front of the list whose \<open>phoneNumber\<close> is
  exactly that phone number, with a pairing code and no QR payload. When no other timer is
  pending, the continuation is what runs two seconds later.
\<close>

theorem createPairSession_validation:
  "(phoneNumberInput s = [] \<longrightarrow>
      error_toasts (createPairSession s) =
        error_toasts s @ [\<lparr>title = ''Phone Number Required'',
          description = ''Please enter a phone number for pairing'',
          variant = Some ''destructive''\<rparr>] \<and>
      sessions (createPairSession s) = sessions s \<and>
      timers (createPairSession s) = timers s) \<and>
   (phoneNumberInput s \<noteq> [] \<longrightarrow>
      error_toasts (createPairSession s) = error_toasts s \<and>
      timers (createPairSession s) =
        timers s @ [(clock s + 2000, PairContinuation (phoneNumberInput s))] \<and>
      sessions (run_task e (PairContinuation (phoneNumberInput s)) s') =
        newPairSession (phoneNumberInput s) e s' # sessions s' \<and>
      phoneNumber (newPairSession (phoneNumberInput s) e s') = Some (phoneNumberInput s) \<and>
      pairCode (newPairSession (phoneNumberInput s) e s') = Some (generatePairCode (code_random e)) \<and>
      qrCode (newPairSession (phoneNumberInput s) e s') = None) \<and>
   (phoneNumberInput s \<noteq> [] \<and> timers s = [] \<longrightarrow>
      sessions (run [CreatePairSession, Elapse 2000, Tick e] s) =
        newPairSession (phoneNumberInput s) e (s\<lparr>clock := clock s + 2000\<rparr>) # sessions s)"
proof (intro conjI impI)
  assume "phoneNumberInput s \<noteq> [] \<and> timers s = []"
  then show "sessions (run [CreatePairSession, Elapse 2000, Tick e] s) =
        newPairSession (phoneNumberInput s) e (s\<lparr>clock := clock s + 2000\<rparr>) # sessions s"
    by (simp add: createPairSession_def setTimeout_def tick_def run_task_def
        sessions_createPairSession_resume newPairSession_def)
qed (simp_all add: createPairSession_def setTimeout_def add_toast_def error_toasts_def
      run_task_def sessions_createPairSession_resume newPairSession_def)

theorem createPairSession_validation_witness:
  "error_toasts (createPairSession (app_init 0)) =
     [\<lparr>title = ''Phone Number Required'',
       description = ''Please enter a phone number for pairing'',
       variant = Some ''destructive''\<rparr>] \<and>
   sessions (createPairSession (app_init 0)) = [] \<and>
   map phoneNumber (sessions (run [CreatePairSession, Elapse 2000, Tick sample_entropy]
     (step (SetPhoneNumber ''+15551234567'') (app_init 0)))) = [Some ''+15551234567''] \<and>
   map pairCode (sessions (run [CreatePairSession, Elapse 2000, Tick sample_entropy]
     (step (SetPhoneNumber ''+15551234567'') (app_init 0)))) = [Some ''AEJN-SW15'']"
proof -
  have a: "phoneNumberInput (app_init 0) = []"
    by (simp add: app_init_def)
  have b: "phoneNumberInput (step (SetPhoneNumber ''+15551234567'') (app_init 0)) \<noteq> [] \<and>
      timers (step (SetPhoneNumber ''+15551234567'') (app_init 0)) = []"
    by (simp add: app_init_def)
  have c: "error_toasts (app_init 0) = [] \<and> sessions (app_init 0) = []"
    by (simp add: app_init_def error_toasts_def)
  have d: "phoneNumberInput (step (SetPhoneNumber ''+15551234567'') (app_init 0)) = ''+15551234567'' \<and>
     sessions (step (SetPhoneNumber ''+15551234567'') (app_init 0)) = []"
    by (simp add: app_init_def)
  have e: "generatePairCode (code_random sample_entropy) = ''AEJN-SW15''"
    by (simp add: generator_defs)
  from createPairSession_validation [of "app_init 0"] a c
  have 1: "error_toasts (createPairSession (app_init 0)) =
     [\<lparr>title = ''Phone Number Required'',
       description = ''Please enter a phone number for pairing'',
       variant = Some ''destructive''\<rparr>] \<and>
   sessions (createPairSession (app_init 0)) = []" by simp
  from createPairSession_validation [of "step (SetPhoneNumber ''+15551234567'') (app_init 0)" sample_entropy] b
  have "sessions (run [CreatePairSession, Elapse 2000, Tick sample_entropy] (step (SetPhoneNumber ''+15551234567'') (app_init 0))) =
        newPairSession (phoneNumberInput (step (SetPhoneNumber ''+15551234567'') (app_init 0))) sample_entropy
          ((step (SetPhoneNumber ''+15551234567'') (app_init 0))\<lparr>clock := clock (step (SetPhoneNumber ''+15551234567'') (app_init 0)) + 2000\<rparr>) #
          sessions (step (SetPhoneNumber ''+15551234567'') (app_init 0))"
    by blast
  then have 2: "map phoneNumber (sessions (run [CreatePairSession, Elapse 2000, Tick sample_entropy]
     (step (SetPhoneNumber ''+15551234567'') (app_init 0)))) = [Some ''+15551234567''] \<and>
   map pairCode (sessions (run [CreatePairSession, Elapse 2000, Tick sample_entropy]
     (step (SetPhoneNumber ''+15551234567'') (app_init 0)))) = [Some ''AEJN-SW15'']"
    using d e by (simp add: newPairSession_def)
  from 1 2 show ?thesis by simp
qed

text \<open>
  C10. With an empty phone number \<open>createPairSession\<close> returns right after the toast:
  the state is the one before the call with that toast added, so the session list, the
  pending timers, \<open>isGenerating\<close>, the phone number input and the clock are unchanged,
  and the call creates no session.
\<close>

theorem createPairSession_empty_phone_no_effect:
  assumes "phoneNumberInput s = []"
  shows "createPairSession s =
           s\<lparr>toasts := toasts s @ [\<lparr>title = ''Phone Number Required'',
              description = ''Please enter a phone number for pairing'',
              variant = Some ''destructive''\<rparr>]\<rparr> \<and>
         sessions (createPairSession s) = sessions s \<and>
         timers (createPairSession s) = timers s \<and>
         isGenerating (createPairSession s) = isGenerating s \<and>
         phoneNumberInput (createPairSession s) = phoneNumberInput s \<and>
         clock (createPairSession s) = clock s \<and>
         created [CreatePairSession] s = []"
  using assms by (simp add: createPairSession_def add_toast_def created_by_def)

theorem createPairSession_empty_phone_no_effect_witness:
  "createPairSession (run [CreateQRSession, Elapse 1500, Tick sample_entropy] (app_init 0)) =
     (run [CreateQRSession, Elapse 1500, Tick sample_entropy] (app_init 0))
       \<lparr>toasts := toasts (run [CreateQRSession, Elapse 1500, Tick sample_entropy] (app_init 0)) @
          [\<lparr>title = ''Phone Number Required'',
              description = ''Please enter a phone number for pairing'',
              variant = Some ''destructive''\<rparr>]\<rparr> \<and>
   map sessionId (sessions (createPairSession
     (run [CreateQRSession, Elapse 1500, Tick sample_entropy] (app_init 0)))) = [''wa_session_1500_k3x9''] \<and>
   timers (createPairSession
     (run [CreateQRSession, Elapse 1500, Tick sample_entropy] (app_init 0))) =
     [(31500, TimeoutCallback ''wa_session_1500_k3x9'')]"
proof -
  let ?s = "run [CreateQRSession, Elapse 1500, Tick sample_entropy] (app_init 0)"
  have h: "phoneNumberInput ?s = []"
    by (simp add: handler_defs)
  have v: "map sessionId (sessions ?s) = [''wa_session_1500_k3x9''] \<and>
      timers ?s = [(31500, TimeoutCallback ''wa_session_1500_k3x9'')]"
    by (simp add: handler_defs generator_defs)
  from createPairSession_empty_phone_no_effect [OF h] v show ?thesis by simp
qed

section \<open>Order and artifacts of the sessions\<close>

text \<open>
  C7. In a run without \<open>deleteSession\<close> from a state \<open>s\<close>, the session list, read with
  the status every session was created with, is the sessions created during the run, the
  most recently created first, followed by the sessions of \<open>s\<close>; from the empty list it
  is exactly the created sessions in reverse order of creation, however many there are.
\<close>

theorem sessions_most_recent_first:
  assumes "list_all (\<lambda>ev. \<not> is_delete ev) evs"
  shows "map as_created (sessions (run evs s)) = rev (created evs s) @ map as_created (sessions s)"
  using assms
proof (induction evs arbitrary: s)
  case Nil
  show ?case by simp
next
  case (Cons ev evs)
  then have "map as_created (sessions (run evs (step ev s))) =
      rev (created evs (step ev s)) @ map as_created (sessions (step ev s))"
    by simp
  moreover have "map as_created (sessions (step ev s)) = created_by ev s @ map as_created (sessions s)"
    using Cons.prems by (simp add: sessions_step kept_other)
  moreover have "rev (created_by ev s) = created_by ev s"
    by (auto simp: created_by_def split: event.splits option.splits if_splits task.splits)
  ultimately show ?case by simp
qed

theorem sessions_most_recent_first_witness:
  "map as_created (sessions (run [CreateQRSession, Elapse 1500, Tick sample_entropy,
       SetPhoneNumber ''+15551234567'', CreatePairSession, Elapse 2000, Tick sample_entropy,
       CreateQRSession, Elapse 1500, Tick sample_entropy] (app_init 0))) =
   rev (created [CreateQRSession, Elapse 1500, Tick sample_entropy,
       SetPhoneNumber ''+15551234567'', CreatePairSession, Elapse 2000, Tick sample_entropy,
       CreateQRSession, Elapse 1500, Tick sample_entropy] (app_init 0)) \<and>
   map sessionId (created [CreateQRSession, Elapse 1500, Tick sample_entropy,
       SetPhoneNumber ''+15551234567'', CreatePairSession, Elapse 2000, Tick sample_entropy,
       CreateQRSession, Elapse 1500, Tick sample_entropy] (app_init 0)) =
     [''wa_session_1500_k3x9'', ''wa_session_3500_k3x9'', ''wa_session_5000_k3x9''] \<and>
   map sessionId (sessions (run [CreateQRSession, Elapse 1500, Tick sample_entropy,
       SetPhoneNumber ''+15551234567'', CreatePairSession, Elapse 2000, Tick sample_entropy,
       CreateQRSession, Elapse 1500, Tick sample_entropy] (app_init 0))) =
     [''wa_session_5000_k3x9'', ''wa_session_3500_k3x9'', ''wa_session_1500_k3x9'']"
proof -
  let ?evs = "[CreateQRSession, Elapse 1500, Tick sample_entropy,
       SetPhoneNumber ''+15551234567'', CreatePairSession, Elapse 2000, Tick sample_entropy,
       CreateQRSession, Elapse 1500, Tick sample_entropy]"
  have h: "list_all (\<lambda>ev. \<not> is_delete ev) ?evs"
    by simp
  have c: "map sessionId (created ?evs (app_init 0)) =
     [''wa_session_1500_k3x9'', ''wa_session_3500_k3x9'', ''wa_session_5000_k3x9'']"
    by (simp add: handler_defs generator_defs created_by_def)
  have i: "map sessionId (sessions (run ?evs (app_init 0))) =
     [''wa_session_5000_k3x9'', ''wa_session_3500_k3x9'', ''wa_session_1500_k3x9'']"
    by (simp add: handler_defs generator_defs)
  have "sessions (app_init 0) = []" by (simp add: app_init_def)
  with sessions_most_recent_first [OF h, of "app_init 0"] c i show ?thesis by simp
qed

lemma one_variant_as_created [simp]: "one_variant (as_created x) = one_variant x"
  by (simp add: one_variant_def as_created_def)

lemma one_variant_created_by: "list_all one_variant (created_by ev s)"
  by (cases ev)
    (simp_all add: created_by_def one_variant_def newQRSession_def newPairSession_def
      split: option.split task.split)

lemma list_all_as_created:
  "list_all one_variant (map as_created xs) = list_all one_variant xs"
  by (induction xs) simp_all

lemma one_variant_step:
  assumes "list_all one_variant (sessions s)"
  shows "list_all one_variant (sessions (step ev s))"
proof -
  have "list_all one_variant (filter (kept ev) (sessions s))"
    using assms by (simp add: list_all_iff)
  then have "list_all one_variant (created_by ev s @ map as_created (filter (kept ev) (sessions s)))"
    by (simp add: one_variant_created_by list_all_as_created)
  then have "list_all one_variant (map as_created (sessions (step ev s)))"
    by (simp only: sessions_step)
  then show ?thesis by (simp only: list_all_as_created)
qed

lemma one_variant_run:
  "list_all one_variant (sessions s) \<Longrightarrow> list_all one_variant (sessions (run evs s))"
  by (induction evs arbitrary: s) (simp_all add: one_variant_step)

text \<open>
  C8. In every state the mounted component reaches, every session holds exactly one
  variant: a QR payload with neither pairing code nor phone number, or a pairing code with
  its phone number and no QR payload. Every session is created so, and no event changes a
  field of a session other than its status: after any event in any state, the sessions,
  read with the status they were created with, are the ones the event creates followed by
  the earlier ones it keeps, field by field as they were.
\<close>

theorem artifact_variant_fixed:
  "list_all one_variant (sessions (run evs (app_init t0))) \<and>
   list_all one_variant (created_by ev s) \<and>
   map as_created (sessions (step ev s)) =
     created_by ev s @ map as_created (filter (kept ev) (sessions s))"
proof -
  have "list_all one_variant (sessions (app_init t0))"
    by (simp add: app_init_def)
  then have "list_all one_variant (sessions (run evs (app_init t0)))"
    by (rule one_variant_run)
  then show ?thesis
    by (simp add: one_variant_created_by sessions_step)
qed

end
